theory Spec2Isabelle
  imports Main
begin

section \<open>The scheduled maintenance workflow\<close>

text \<open>
  A shallow embedding of \<^verbatim>\<open>ScheduledMaintenanceWorkflow\<close>
  (\<^verbatim>\<open>src/agents/maintenance/workflows/scheduled_maintenance_workflow.py\<close>):
  the construction of the orchestrator, the filter construction and the five-stage
  pipeline of \<^verbatim>\<open>run()\<close>, and the end-of-day normalisation of \<^verbatim>\<open>main()\<close>.
  Logging is not modelled: no statement of the pipeline reads what was logged.
\<close>

subsection \<open>Timestamps\<close>

text \<open>
  A naive \<^verbatim>\<open>datetime.datetime\<close> (no time zone: \<^verbatim>\<open>main()\<close> builds its values with
  \<^verbatim>\<open>strptime(..., "%Y-%m-%d")\<close>, which yields naive values). The fields are those of
  the Python object.
\<close>

record datetime =
  year :: nat
  month :: nat
  day :: nat
  hour :: nat
  minute :: nat
  second :: nat
  microsecond :: nat

text \<open>The character of a decimal digit; the index is always below ten.\<close>

definition digit_char :: "nat \<Rightarrow> char" where
  "digit_char n = ''0123456789'' ! (n mod 10)"

text \<open>The decimal digits of a natural number, most significant first (\<^verbatim>\<open>"%d" % n\<close>).\<close>

fun decimal :: "nat \<Rightarrow> string" where
  "decimal n =
     (if n < 10 then [digit_char n] else decimal (n div 10) @ [digit_char (n mod 10)])"

declare decimal.simps [simp del]

text \<open>\<^verbatim>\<open>"%0wd" % n\<close>: the decimal digits, padded with zeros on the left to width \<open>w\<close>.\<close>

definition zero_padded :: "nat \<Rightarrow> nat \<Rightarrow> string" where
  "zero_padded w n = replicate (w - length (decimal n)) (CHR ''0'') @ decimal n"

text \<open>
  \<^verbatim>\<open>datetime.isoformat()\<close> of a naive value, with the default separator and
  \<^verbatim>\<open>timespec='auto'\<close>: \<^verbatim>\<open>"%04d-%02d-%02dT%02d:%02d:%02d"\<close>, followed by
  \<^verbatim>\<open>".%06d"\<close> of the microseconds when they are not zero.
\<close>

definition isoformat :: "datetime \<Rightarrow> string" where
  "isoformat d =
     zero_padded 4 (year d) @ ''-'' @ zero_padded 2 (month d) @ ''-'' @ zero_padded 2 (day d)
     @ ''T'' @ zero_padded 2 (hour d) @ '':'' @ zero_padded 2 (minute d) @ '':''
     @ zero_padded 2 (second d)
     @ (if microsecond d \<noteq> 0 then ''.'' @ zero_padded 6 (microsecond d) else [])"

text \<open>
  \<^verbatim>\<open>main()\<close>, line 212:
  \<^verbatim>\<open>period_end.replace(hour=23, minute=59, second=59, microsecond=999999)\<close>.
\<close>

definition replace_end_of_day :: "datetime \<Rightarrow> datetime" where
  "replace_end_of_day d = d\<lparr>hour := 23, minute := 59, second := 59, microsecond := 999999\<rparr>"

subsection \<open>The period arguments of \<^verbatim>\<open>run()\<close>\<close>

text \<open>
  \<^verbatim>\<open>period_start\<close> and \<^verbatim>\<open>period_end\<close> are each \<^verbatim>\<open>None\<close>, a \<^verbatim>\<open>datetime\<close> or a
  string (the code tests \<^verbatim>\<open>isinstance(x, datetime)\<close> and passes anything else through).
\<close>

datatype period = Timestamp datetime | Text string

text \<open>
  Python's truth value, as tested by \<^verbatim>\<open>if period_start and period_end\<close>: \<^verbatim>\<open>None\<close>
  and the empty string are false, every \<^verbatim>\<open>datetime\<close> and every other string is true.
\<close>

fun truthy :: "period option \<Rightarrow> bool" where
  "truthy None = False"
| "truthy (Some (Timestamp d)) = True"
| "truthy (Some (Text s)) = (s \<noteq> [])"

text \<open>
  \<^verbatim>\<open>x.isoformat() if isinstance(x, datetime) else x\<close>; the result is a string or
  \<^verbatim>\<open>None\<close>.
\<close>

fun isoformat_or_same :: "period option \<Rightarrow> string option" where
  "isoformat_or_same None = None"
| "isoformat_or_same (Some (Timestamp d)) = Some (isoformat d)"
| "isoformat_or_same (Some (Text s)) = Some s"

subsection \<open>Filter construction\<close>

text \<open>
  Lines 105 to 123 of \<^verbatim>\<open>run()\<close>. The dictionary \<^verbatim>\<open>filters\<close> is a map from keys to
  Python values, each a string or \<^verbatim>\<open>None\<close>.
\<close>

type_synonym filters = "string \<rightharpoonup> string option"

definition build_filters :: "period option \<Rightarrow> period option \<Rightarrow> filters" where
  "build_filters period_start period_end =
     (if truthy period_start \<and> truthy period_end then
        (Map.empty(''resolved_at.gte'' \<mapsto> isoformat_or_same period_start))
          (''resolved_at.lte'' \<mapsto> isoformat_or_same period_end)
      else if truthy period_start then
        Map.empty(''resolved_at.gte'' \<mapsto> isoformat_or_same period_start)
      else if truthy period_end then
        Map.empty(''resolved_at.lte'' \<mapsto> isoformat_or_same period_end)
      else Map.empty)"

subsection \<open>Exceptions, collaborators and the run summary\<close>

text \<open>
  A raised exception, with the text that \<^verbatim>\<open>str(e)\<close> gives. \<open>PyException\<close> is an
  instance of \<^verbatim>\<open>Exception\<close>; \<open>PyBaseException\<close> is an instance of
  \<^verbatim>\<open>BaseException\<close> that is not an \<^verbatim>\<open>Exception\<close> (\<^verbatim>\<open>KeyboardInterrupt\<close>,
  \<^verbatim>\<open>SystemExit\<close>, \<^verbatim>\<open>GeneratorExit\<close>): the handlers of this file are all
  \<^verbatim>\<open>except Exception\<close>, which does not catch the latter.
\<close>

datatype py_exception = PyException string | PyBaseException string

text \<open>
  The values the collaborators return, typed by their contracts:
  \<^item> \<^verbatim>\<open>query_table\<close>: a list of records or \<^verbatim>\<open>None\<close>;
  \<^item> \<^verbatim>\<open>run_analysis\<close>: an opaque analysis result, \<open>None\<close> standing for an absent or
    empty one (the code observes only its truth value);
  \<^item> \<^verbatim>\<open>interpret_results\<close>: a list of machines or \<^verbatim>\<open>None\<close>;
  \<^item> \<^verbatim>\<open>schedule_maintenance_tasks\<close>: an opaque schedule result;
  \<^item> \<^verbatim>\<open>write_maintenance_tasks\<close>: a dictionary of counts;
  \<^item> \<^verbatim>\<open>send_notifications\<close>: nothing that the code reads.
  Every call either returns or raises, and may change the state \<open>'w\<close> of the world outside
  the orchestrator (the store, the scheduler object that the writer is handed, the
  notification channel).
\<close>

record ('r, 'a, 'm, 's, 'w) collaborators =
  query_table ::
    "string \<Rightarrow> string \<Rightarrow> filters \<Rightarrow> nat \<Rightarrow> 'w \<Rightarrow> (py_exception + 'r list option) \<times> 'w"
  run_analysis :: "'r list option \<Rightarrow> 'w \<Rightarrow> (py_exception + 'a option) \<times> 'w"
  interpret_results :: "'a option \<Rightarrow> 'w \<Rightarrow> (py_exception + 'm list option) \<times> 'w"
  schedule_maintenance_tasks :: "'m list option \<Rightarrow> 'w \<Rightarrow> (py_exception + 's) \<times> 'w"
  write_maintenance_tasks :: "'s \<Rightarrow> 'w \<Rightarrow> (py_exception + (string \<rightharpoonup> int)) \<times> 'w"
  send_notifications :: "'m list option \<Rightarrow> 'w \<Rightarrow> (py_exception + unit) \<times> 'w"

text \<open>The calls made during a run, in order, each with its arguments and its outcome.\<close>

datatype ('r, 'a, 'm, 's) event =
    is_QueryTable: QueryTable string string filters nat "py_exception + 'r list option"
  | is_RunAnalysis: RunAnalysis "'r list option" "py_exception + 'a option"
  | is_InterpretResults: InterpretResults "'a option" "py_exception + 'm list option"
  | is_ScheduleMaintenanceTasks: ScheduleMaintenanceTasks "'m list option" "py_exception + 's"
  | is_WriteMaintenanceTasks: WriteMaintenanceTasks 's "py_exception + (string \<rightharpoonup> int)"
  | is_SendNotifications: SendNotifications "'m list option" "py_exception + unit"


text \<open>The dictionary \<^verbatim>\<open>result_summary\<close>.\<close>

record summary =
  analysis_success :: bool
  tasks_created :: int
  errors :: "string list"
  period_start :: "string option"
  period_end :: "string option"

text \<open>\<^verbatim>\<open>not xs\<close> on a list or \<^verbatim>\<open>None\<close>: true for \<^verbatim>\<open>None\<close> and for the empty list.\<close>

fun not_list :: "'x list option \<Rightarrow> bool" where
  "not_list None = True"
| "not_list (Some []) = True"
| "not_list (Some (x # xs)) = False"

text \<open>\<^verbatim>\<open>not analysis_results\<close>.\<close>

fun not_result :: "'a option \<Rightarrow> bool" where
  "not_result None = True"
| "not_result (Some a) = False"

text \<open>\<^verbatim>\<open>d.get(key, default)\<close>.\<close>

definition dict_get :: "(string \<rightharpoonup> int) \<Rightarrow> string \<Rightarrow> int \<Rightarrow> int" where
  "dict_get d k dflt = (case d k of None \<Rightarrow> dflt | Some v \<Rightarrow> v)"

subsection \<open>The pipeline\<close>

text \<open>
  The \<^verbatim>\<open>try\<close> block of \<^verbatim>\<open>run()\<close>, lines 96 to 173. It returns the exception that
  escaped the block, if one did (\<open>None\<close> when a \<^verbatim>\<open>return result_summary\<close> was reached),
  the summary as mutated so far, the state of the world and the calls made.
\<close>

definition try_block ::
  "('r, 'a, 'm, 's, 'w) collaborators \<Rightarrow> period option \<Rightarrow> period option \<Rightarrow> summary \<Rightarrow> 'w
     \<Rightarrow> py_exception option \<times> summary \<times> 'w \<times> ('r, 'a, 'm, 's) event list" where
  "try_block self p_start p_end result_summary w =
     (let filters = build_filters p_start p_end;
          (records, w1) = query_table self ''downtime_detail'' ''*'' filters 1000 w;
          log1 = [QueryTable ''downtime_detail'' ''*'' filters 1000 records]
      in case records of
           Inl e \<Rightarrow> (Some e, result_summary, w1, log1)
         | Inr records \<Rightarrow>
             if not_list records then
               (None,
                result_summary\<lparr>errors := errors result_summary
                   @ [''No machine records found in database for the specified period'']\<rparr>,
                w1, log1)
             else
               (let (analysis_results, w2) = run_analysis self records w1;
                    log2 = log1 @ [RunAnalysis records analysis_results]
                in case analysis_results of
                     Inl e \<Rightarrow> (Some e, result_summary, w2, log2)
                   | Inr analysis_results \<Rightarrow>
                       if not_result analysis_results then
                         (None,
                          result_summary\<lparr>errors := errors result_summary
                             @ [''No results from machine clustering analysis'']\<rparr>,
                          w2, log2)
                       else
                         (let result_summary = result_summary\<lparr>analysis_success := True\<rparr>;
                              (machines_to_service, w3) =
                                 interpret_results self analysis_results w2;
                              log3 = log2 @ [InterpretResults analysis_results machines_to_service]
                          in case machines_to_service of
                               Inl e \<Rightarrow> (Some e, result_summary, w3, log3)
                             | Inr machines_to_service \<Rightarrow>
                                 if not_list machines_to_service then
                                   (None, result_summary, w3, log3)
                                 else
                                   (let (schedule_results, w4) =
                                           schedule_maintenance_tasks self machines_to_service w3;
                                        log4 = log3 @ [ScheduleMaintenanceTasks
                                                         machines_to_service schedule_results]
                                    in case schedule_results of
                                         Inl e \<Rightarrow> (Some e, result_summary, w4, log4)
                                       | Inr schedule_results \<Rightarrow>
                                           (let (write_results, w5) =
                                                   write_maintenance_tasks self schedule_results w4;
                                                log5 = log4 @ [WriteMaintenanceTasks
                                                                 schedule_results write_results]
                                            in case write_results of
                                                 Inl e \<Rightarrow> (Some e, result_summary, w5, log5)
                                               | Inr write_results \<Rightarrow>
                                                   (let result_summary = result_summary
                                                          \<lparr>tasks_created :=
                                                             dict_get write_results
                                                               ''tasks_created'' 0\<rparr>
                                                    in if tasks_created result_summary > 0 then
                                                         (let (sent, w6) = send_notifications
                                                                 self machines_to_service w5;
                                                              log6 = log5 @ [SendNotifications
                                                                       machines_to_service sent]
                                                          in case sent of
                                                               Inl e \<Rightarrow>
                                                                 (Some e, result_summary, w6, log6)
                                                             | Inr u \<Rightarrow>
                                                                 (None, result_summary, w6, log6))
                                                       else (None, result_summary, w5, log5)))))))"

text \<open>
  \<^verbatim>\<open>run()\<close>, lines 88 to 180: the summary is created, the \<^verbatim>\<open>try\<close> block runs, and
  the handler \<^verbatim>\<open>except Exception as e\<close> appends one error and returns the summary. An
  exception that is not an \<^verbatim>\<open>Exception\<close> leaves \<^verbatim>\<open>run()\<close> (\<open>Inl\<close>).
\<close>

definition run ::
  "('r, 'a, 'm, 's, 'w) collaborators \<Rightarrow> period option \<Rightarrow> period option \<Rightarrow> 'w
     \<Rightarrow> (py_exception + summary) \<times> 'w \<times> ('r, 'a, 'm, 's) event list" where
  "run self p_start p_end w =
     (let result_summary =
            \<lparr>analysis_success = False, tasks_created = 0, errors = [],
             period_start = isoformat_or_same p_start,
             period_end = isoformat_or_same p_end\<rparr>
      in case try_block self p_start p_end result_summary w of
           (None, result_summary, w', log) \<Rightarrow> (Inr result_summary, w', log)
         | (Some (PyException m), result_summary, w', log) \<Rightarrow>
             (Inr (result_summary\<lparr>errors := errors result_summary
                     @ [''Error in workflow execution: '' @ m]\<rparr>), w', log)
         | (Some (PyBaseException m), result_summary, w', log) \<Rightarrow>
             (Inl (PyBaseException m), w', log))"

subsection \<open>The command line's period\<close>

text \<open>
  The value that \<^verbatim>\<open>datetime.strptime(text, "%Y-%m-%d")\<close> gives for the text of a
  calendar date: that day at midnight (\<^verbatim>\<open>main()\<close>, lines 201 to 202 and 207 to 208).
\<close>

definition midnight :: "nat \<Rightarrow> nat \<Rightarrow> nat \<Rightarrow> datetime" where
  "midnight y m d =
     \<lparr>year = y, month = m, day = d, hour = 0, minute = 0, second = 0, microsecond = 0\<rparr>"

text \<open>
  \<^verbatim>\<open>main()\<close>, lines 211 to 219, once both dates are parsed and the workflow is
  constructed: the end of the period is moved to the end of its day, and \<^verbatim>\<open>run()\<close> is
  called with both timestamps.
\<close>

definition main_run ::
  "('r, 'a, 'm, 's, 'w) collaborators \<Rightarrow> datetime \<Rightarrow> datetime \<Rightarrow> 'w
     \<Rightarrow> (py_exception + summary) \<times> 'w \<times> ('r, 'a, 'm, 's) event list" where
  "main_run self p_start p_end w =
     (let p_end = replace_end_of_day p_end
      in run self (Some (Timestamp p_start)) (Some (Timestamp p_end)) w)"

subsection \<open>Construction of the orchestrator\<close>

text \<open>
  The state of the process during \<^verbatim>\<open>__init__\<close>: the environment variables
  (\<^verbatim>\<open>os.environ\<close>) and the world outside.
\<close>

record 'w process =
  environ :: "string \<rightharpoonup> string"
  world :: 'w

text \<open>
  \<^verbatim>\<open>os.environ[key] = value\<close> for a string \<open>value\<close>: \<^verbatim>\<open>putenv\<close> refuses a value
  with a null byte (\<^verbatim>\<open>ValueError: embedded null byte\<close>).
\<close>

definition environ_setitem :: "string \<Rightarrow> string \<Rightarrow> 'w process \<Rightarrow> py_exception + 'w process" where
  "environ_setitem key val p =
     (if CHR 0x00 \<in> set val then Inl (PyException ''embedded null byte'')
      else Inr (p\<lparr>environ := (environ p)(key \<mapsto> val)\<rparr>))"

text \<open>
  The constructors of the four collaborators; each returns the object or raises, and may
  read and change the state of the process.
\<close>

record ('db, 'sch, 'wr, 'nt, 'w) constructors =
  SupabaseClient :: "'w process \<Rightarrow> (py_exception + 'db) \<times> 'w process"
  MaintenanceTaskScheduler :: "'db \<Rightarrow> 'w process \<Rightarrow> (py_exception + 'sch) \<times> 'w process"
  MaintenanceTaskWriter :: "'db \<Rightarrow> 'w process \<Rightarrow> (py_exception + 'wr) \<times> 'w process"
  MaintenanceNotifier :: "'w process \<Rightarrow> (py_exception + 'nt) \<times> 'w process"

text \<open>The constructor calls made, in order, each with its argument and its outcome.\<close>

datatype ('db, 'sch, 'wr, 'nt) construction =
    NewSupabaseClient "py_exception + 'db"
  | NewMaintenanceTaskScheduler 'db "py_exception + 'sch"
  | NewMaintenanceTaskWriter 'db "py_exception + 'wr"
  | NewMaintenanceNotifier "py_exception + 'nt"

fun failed :: "('db, 'sch, 'wr, 'nt) construction \<Rightarrow> py_exception option" where
  "failed (NewSupabaseClient r) = (case r of Inl e \<Rightarrow> Some e | Inr _ \<Rightarrow> None)"
| "failed (NewMaintenanceTaskScheduler d r) = (case r of Inl e \<Rightarrow> Some e | Inr _ \<Rightarrow> None)"
| "failed (NewMaintenanceTaskWriter d r) = (case r of Inl e \<Rightarrow> Some e | Inr _ \<Rightarrow> None)"
| "failed (NewMaintenanceNotifier r) = (case r of Inl e \<Rightarrow> Some e | Inr _ \<Rightarrow> None)"

text \<open>The attributes of a constructed \<^verbatim>\<open>ScheduledMaintenanceWorkflow\<close>.\<close>

record ('db, 'sch, 'wr, 'nt) workflow =
  db :: 'db
  scheduler :: 'sch
  writer :: 'wr
  notifier :: 'nt

text \<open>
  \<^verbatim>\<open>not SUPABASE_URL\<close>: the setting is \<^verbatim>\<open>None\<close> or the empty string.
\<close>

fun not_str :: "string option \<Rightarrow> bool" where
  "not_str None = True"
| "not_str (Some s) = (s = [])"

text \<open>
  \<^verbatim>\<open>__init__\<close>, lines 55 to 71, with the two settings as parameters. The handler
  \<^verbatim>\<open>except Exception\<close> logs and raises the same exception again, so every exception of
  the block leaves the constructor (\<open>Inl\<close>) and no object is returned.
\<close>

definition init ::
  "string option \<Rightarrow> string option \<Rightarrow> ('db, 'sch, 'wr, 'nt, 'w) constructors \<Rightarrow> 'w process
     \<Rightarrow> (py_exception + ('db, 'sch, 'wr, 'nt) workflow) \<times> 'w process
        \<times> ('db, 'sch, 'wr, 'nt) construction list" where
  "init SUPABASE_URL SUPABASE_KEY new p =
     (if not_str SUPABASE_URL \<or> not_str SUPABASE_KEY then
        (Inl (PyException ''SUPABASE_URL and SUPABASE_KEY must be set in settings''), p, [])
      else
        case environ_setitem ''SUPABASE_URL'' (the SUPABASE_URL) p of
          Inl e \<Rightarrow> (Inl e, p, [])
        | Inr p1 \<Rightarrow>
            (case environ_setitem ''SUPABASE_KEY'' (the SUPABASE_KEY) p1 of
               Inl e \<Rightarrow> (Inl e, p1, [])
             | Inr p2 \<Rightarrow>
                 (let (client, p3) = SupabaseClient new p2;
                      log1 = [NewSupabaseClient client]
                  in case client of
                       Inl e \<Rightarrow> (Inl e, p3, log1)
                     | Inr self_db \<Rightarrow>
                         (let (sch, p4) = MaintenanceTaskScheduler new self_db p3;
                              log2 = log1 @ [NewMaintenanceTaskScheduler self_db sch]
                          in case sch of
                               Inl e \<Rightarrow> (Inl e, p4, log2)
                             | Inr self_scheduler \<Rightarrow>
                                 (let (wr, p5) = MaintenanceTaskWriter new self_db p4;
                                      log3 = log2 @ [NewMaintenanceTaskWriter self_db wr]
                                  in case wr of
                                       Inl e \<Rightarrow> (Inl e, p5, log3)
                                     | Inr self_writer \<Rightarrow>
                                         (let (nt, p6) = MaintenanceNotifier new p5;
                                              log4 = log3 @ [NewMaintenanceNotifier nt]
                                          in case nt of
                                               Inl e \<Rightarrow> (Inl e, p6, log4)
                                             | Inr self_notifier \<Rightarrow>
                                                 (Inr \<lparr>db = self_db,
                                                        scheduler = self_scheduler,
                                                        writer = self_writer,
                                                        notifier = self_notifier\<rparr>,
                                                  p6, log4)))))))"

subsection \<open>Scripted collaborators\<close>

text \<open>
  Collaborators that answer each call with a fixed outcome, whatever the arguments, and
  count the calls in the state of the world. They give the pipeline concrete inputs.
\<close>

definition scripted ::
  "py_exception + nat list option \<Rightarrow> py_exception + nat option
     \<Rightarrow> py_exception + nat list option \<Rightarrow> py_exception + nat
     \<Rightarrow> py_exception + (string \<rightharpoonup> int) \<Rightarrow> py_exception + unit
     \<Rightarrow> (nat, nat, nat, nat, nat) collaborators" where
  "scripted q a i s wr n =
     \<lparr>query_table = (\<lambda>table_name columns filters limit w. (q, Suc w)),
      run_analysis = (\<lambda>records w. (a, Suc w)),
      interpret_results = (\<lambda>analysis_results w. (i, Suc w)),
      schedule_maintenance_tasks = (\<lambda>machines_to_service w. (s, Suc w)),
      write_maintenance_tasks = (\<lambda>schedule_results w. (wr, Suc w)),
      send_notifications = (\<lambda>machines_to_service w. (n, Suc w))\<rparr>"

text \<open>The same for the constructors of the collaborators.\<close>

definition scripted_constructors ::
  "py_exception + nat \<Rightarrow> py_exception + nat \<Rightarrow> py_exception + nat \<Rightarrow> py_exception + nat
     \<Rightarrow> (nat, nat, nat, nat, nat) constructors" where
  "scripted_constructors d s wr n =
     \<lparr>SupabaseClient = (\<lambda>p. (d, p\<lparr>world := Suc (world p)\<rparr>)),
      MaintenanceTaskScheduler = (\<lambda>self_db p. (s, p\<lparr>world := Suc (world p)\<rparr>)),
      MaintenanceTaskWriter = (\<lambda>self_db p. (wr, p\<lparr>world := Suc (world p)\<rparr>)),
      MaintenanceNotifier = (\<lambda>p. (n, p\<lparr>world := Suc (world p)\<rparr>))\<rparr>"


section \<open>Properties\<close>

text \<open>
  A period bound is true in Python's sense when it is a timestamp or a text that is not
  empty; its normal form is then a string.
\<close>

lemma truthy_iff: "truthy p \<longleftrightarrow> p \<noteq> None \<and> p \<noteq> Some (Text [])"
  by (cases p rule: truthy.cases) simp_all

lemma truthy_isoformat_or_same:
  "truthy p \<Longrightarrow> \<exists>s. isoformat_or_same p = Some s"
  by (cases p rule: truthy.cases) simp_all

lemma isoformat_start: "isoformat (midnight 2024 1 1) = ''2024-01-01T00:00:00''"
  by (simp add: midnight_def isoformat_def zero_padded_def decimal.simps digit_char_def)

lemma isoformat_end:
  "isoformat (replace_end_of_day (midnight 2024 1 31)) = ''2024-01-31T23:59:59.999999''"
  by (simp add: midnight_def replace_end_of_day_def isoformat_def zero_padded_def
      decimal.simps digit_char_def)

lemma not_list_length: "0 < length xs \<Longrightarrow> \<not> not_list (Some xs)"
  by (cases xs) simp_all

subsection \<open>The paths through the \<^verbatim>\<open>try\<close> block\<close>

text \<open>
  One lemma for each way the block can end: at a call that raises, at one of the three
  early returns, or at the final return with or without a notification.
\<close>

lemma try_block_fetch_raises:
  assumes "query_table c ''downtime_detail'' ''*'' (build_filters ps pe) 1000 w = (Inl e, w1)"
  shows "try_block c ps pe s w =
    (Some e, s, w1, [QueryTable ''downtime_detail'' ''*'' (build_filters ps pe) 1000 (Inl e)])"
  using assms by (simp add: try_block_def)

lemma try_block_no_records:
  assumes "query_table c ''downtime_detail'' ''*'' (build_filters ps pe) 1000 w = (Inr records, w1)"
    and "not_list records"
  shows "try_block c ps pe s w =
    (None, s\<lparr>errors := errors s @ [''No machine records found in database for the specified period'']\<rparr>,
     w1, [QueryTable ''downtime_detail'' ''*'' (build_filters ps pe) 1000 (Inr records)])"
  using assms by (simp add: try_block_def)

lemma try_block_analysis_raises:
  assumes "query_table c ''downtime_detail'' ''*'' (build_filters ps pe) 1000 w = (Inr records, w1)"
    and "\<not> not_list records"
    and "run_analysis c records w1 = (Inl e, w2)"
  shows "try_block c ps pe s w =
    (Some e, s, w2,
     [QueryTable ''downtime_detail'' ''*'' (build_filters ps pe) 1000 (Inr records),
      RunAnalysis records (Inl e)])"
  using assms by (simp add: try_block_def)

lemma try_block_no_analysis:
  assumes "query_table c ''downtime_detail'' ''*'' (build_filters ps pe) 1000 w = (Inr records, w1)"
    and "\<not> not_list records"
    and "run_analysis c records w1 = (Inr a, w2)"
    and "not_result a"
  shows "try_block c ps pe s w =
    (None, s\<lparr>errors := errors s @ [''No results from machine clustering analysis'']\<rparr>, w2,
     [QueryTable ''downtime_detail'' ''*'' (build_filters ps pe) 1000 (Inr records),
      RunAnalysis records (Inr a)])"
  using assms by (simp add: try_block_def)

lemma try_block_interpret_raises:
  assumes "query_table c ''downtime_detail'' ''*'' (build_filters ps pe) 1000 w = (Inr records, w1)"
    and "\<not> not_list records"
    and "run_analysis c records w1 = (Inr a, w2)"
    and "\<not> not_result a"
    and "interpret_results c a w2 = (Inl e, w3)"
  shows "try_block c ps pe s w =
    (Some e, s\<lparr>analysis_success := True\<rparr>, w3,
     [QueryTable ''downtime_detail'' ''*'' (build_filters ps pe) 1000 (Inr records),
      RunAnalysis records (Inr a), InterpretResults a (Inl e)])"
  using assms by (simp add: try_block_def)

lemma try_block_no_machines:
  assumes "query_table c ''downtime_detail'' ''*'' (build_filters ps pe) 1000 w = (Inr records, w1)"
    and "\<not> not_list records"
    and "run_analysis c records w1 = (Inr a, w2)"
    and "\<not> not_result a"
    and "interpret_results c a w2 = (Inr ms, w3)"
    and "not_list ms"
  shows "try_block c ps pe s w =
    (None, s\<lparr>analysis_success := True\<rparr>, w3,
     [QueryTable ''downtime_detail'' ''*'' (build_filters ps pe) 1000 (Inr records),
      RunAnalysis records (Inr a), InterpretResults a (Inr ms)])"
  using assms by (simp add: try_block_def)

lemma try_block_schedule_raises:
  assumes "query_table c ''downtime_detail'' ''*'' (build_filters ps pe) 1000 w = (Inr records, w1)"
    and "\<not> not_list records"
    and "run_analysis c records w1 = (Inr a, w2)"
    and "\<not> not_result a"
    and "interpret_results c a w2 = (Inr ms, w3)"
    and "\<not> not_list ms"
    and "schedule_maintenance_tasks c ms w3 = (Inl e, w4)"
  shows "try_block c ps pe s w =
    (Some e, s\<lparr>analysis_success := True\<rparr>, w4,
     [QueryTable ''downtime_detail'' ''*'' (build_filters ps pe) 1000 (Inr records),
      RunAnalysis records (Inr a), InterpretResults a (Inr ms),
      ScheduleMaintenanceTasks ms (Inl e)])"
  using assms by (simp add: try_block_def)

lemma try_block_write_raises:
  assumes "query_table c ''downtime_detail'' ''*'' (build_filters ps pe) 1000 w = (Inr records, w1)"
    and "\<not> not_list records"
    and "run_analysis c records w1 = (Inr a, w2)"
    and "\<not> not_result a"
    and "interpret_results c a w2 = (Inr ms, w3)"
    and "\<not> not_list ms"
    and "schedule_maintenance_tasks c ms w3 = (Inr sr, w4)"
    and "write_maintenance_tasks c sr w4 = (Inl e, w5)"
  shows "try_block c ps pe s w =
    (Some e, s\<lparr>analysis_success := True\<rparr>, w5,
     [QueryTable ''downtime_detail'' ''*'' (build_filters ps pe) 1000 (Inr records),
      RunAnalysis records (Inr a), InterpretResults a (Inr ms),
      ScheduleMaintenanceTasks ms (Inr sr), WriteMaintenanceTasks sr (Inl e)])"
  using assms by (simp add: try_block_def)

lemma try_block_no_tasks:
  assumes "query_table c ''downtime_detail'' ''*'' (build_filters ps pe) 1000 w = (Inr records, w1)"
    and "\<not> not_list records"
    and "run_analysis c records w1 = (Inr a, w2)"
    and "\<not> not_result a"
    and "interpret_results c a w2 = (Inr ms, w3)"
    and "\<not> not_list ms"
    and "schedule_maintenance_tasks c ms w3 = (Inr sr, w4)"
    and "write_maintenance_tasks c sr w4 = (Inr wr, w5)"
    and "\<not> dict_get wr ''tasks_created'' 0 > 0"
  shows "try_block c ps pe s w =
    (None, s\<lparr>analysis_success := True, tasks_created := dict_get wr ''tasks_created'' 0\<rparr>, w5,
     [QueryTable ''downtime_detail'' ''*'' (build_filters ps pe) 1000 (Inr records),
      RunAnalysis records (Inr a), InterpretResults a (Inr ms),
      ScheduleMaintenanceTasks ms (Inr sr), WriteMaintenanceTasks sr (Inr wr)])"
  using assms by (simp add: try_block_def)

lemma try_block_notify_raises:
  assumes "query_table c ''downtime_detail'' ''*'' (build_filters ps pe) 1000 w = (Inr records, w1)"
    and "\<not> not_list records"
    and "run_analysis c records w1 = (Inr a, w2)"
    and "\<not> not_result a"
    and "interpret_results c a w2 = (Inr ms, w3)"
    and "\<not> not_list ms"
    and "schedule_maintenance_tasks c ms w3 = (Inr sr, w4)"
    and "write_maintenance_tasks c sr w4 = (Inr wr, w5)"
    and "dict_get wr ''tasks_created'' 0 > 0"
    and "send_notifications c ms w5 = (Inl e, w6)"
  shows "try_block c ps pe s w =
    (Some e, s\<lparr>analysis_success := True, tasks_created := dict_get wr ''tasks_created'' 0\<rparr>, w6,
     [QueryTable ''downtime_detail'' ''*'' (build_filters ps pe) 1000 (Inr records),
      RunAnalysis records (Inr a), InterpretResults a (Inr ms),
      ScheduleMaintenanceTasks ms (Inr sr), WriteMaintenanceTasks sr (Inr wr),
      SendNotifications ms (Inl e)])"
  using assms by (simp add: try_block_def)

lemma try_block_notified:
  assumes "query_table c ''downtime_detail'' ''*'' (build_filters ps pe) 1000 w = (Inr records, w1)"
    and "\<not> not_list records"
    and "run_analysis c records w1 = (Inr a, w2)"
    and "\<not> not_result a"
    and "interpret_results c a w2 = (Inr ms, w3)"
    and "\<not> not_list ms"
    and "schedule_maintenance_tasks c ms w3 = (Inr sr, w4)"
    and "write_maintenance_tasks c sr w4 = (Inr wr, w5)"
    and "dict_get wr ''tasks_created'' 0 > 0"
    and "send_notifications c ms w5 = (Inr u, w6)"
  shows "try_block c ps pe s w =
    (None, s\<lparr>analysis_success := True, tasks_created := dict_get wr ''tasks_created'' 0\<rparr>, w6,
     [QueryTable ''downtime_detail'' ''*'' (build_filters ps pe) 1000 (Inr records),
      RunAnalysis records (Inr a), InterpretResults a (Inr ms),
      ScheduleMaintenanceTasks ms (Inr sr), WriteMaintenanceTasks sr (Inr wr),
      SendNotifications ms (Inr u)])"
  using assms by (simp add: try_block_def)

text \<open>
  Every run ends on exactly one of the eleven paths; the rule gives, for each, the
  outcomes of the calls made on it.
\<close>

lemma run_paths [case_names fetch_raises no_records analysis_raises no_analysis
    interpret_raises no_machines schedule_raises write_raises no_tasks notify_raises notified]:
  fixes c :: "('r, 'a, 'm, 's, 'w) collaborators"
  obtains
    (fetch_raises) e w1 where
      "query_table c ''downtime_detail'' ''*'' (build_filters ps pe) 1000 w = (Inl e, w1)"
  | (no_records) records w1 where
      "query_table c ''downtime_detail'' ''*'' (build_filters ps pe) 1000 w = (Inr records, w1)"
      "not_list records"
  | (analysis_raises) records w1 e w2 where
      "query_table c ''downtime_detail'' ''*'' (build_filters ps pe) 1000 w = (Inr records, w1)"
      "\<not> not_list records"
      "run_analysis c records w1 = (Inl e, w2)"
  | (no_analysis) records w1 a w2 where
      "query_table c ''downtime_detail'' ''*'' (build_filters ps pe) 1000 w = (Inr records, w1)"
      "\<not> not_list records"
      "run_analysis c records w1 = (Inr a, w2)"
      "not_result a"
  | (interpret_raises) records w1 a w2 e w3 where
      "query_table c ''downtime_detail'' ''*'' (build_filters ps pe) 1000 w = (Inr records, w1)"
      "\<not> not_list records"
      "run_analysis c records w1 = (Inr a, w2)"
      "\<not> not_result a"
      "interpret_results c a w2 = (Inl e, w3)"
  | (no_machines) records w1 a w2 ms w3 where
      "query_table c ''downtime_detail'' ''*'' (build_filters ps pe) 1000 w = (Inr records, w1)"
      "\<not> not_list records"
      "run_analysis c records w1 = (Inr a, w2)"
      "\<not> not_result a"
      "interpret_results c a w2 = (Inr ms, w3)"
      "not_list ms"
  | (schedule_raises) records w1 a w2 ms w3 e w4 where
      "query_table c ''downtime_detail'' ''*'' (build_filters ps pe) 1000 w = (Inr records, w1)"
      "\<not> not_list records"
      "run_analysis c records w1 = (Inr a, w2)"
      "\<not> not_result a"
      "interpret_results c a w2 = (Inr ms, w3)"
      "\<not> not_list ms"
      "schedule_maintenance_tasks c ms w3 = (Inl e, w4)"
  | (write_raises) records w1 a w2 ms w3 sr w4 e w5 where
      "query_table c ''downtime_detail'' ''*'' (build_filters ps pe) 1000 w = (Inr records, w1)"
      "\<not> not_list records"
      "run_analysis c records w1 = (Inr a, w2)"
      "\<not> not_result a"
      "interpret_results c a w2 = (Inr ms, w3)"
      "\<not> not_list ms"
      "schedule_maintenance_tasks c ms w3 = (Inr sr, w4)"
      "write_maintenance_tasks c sr w4 = (Inl e, w5)"
  | (no_tasks) records w1 a w2 ms w3 sr w4 wr w5 where
      "query_table c ''downtime_detail'' ''*'' (build_filters ps pe) 1000 w = (Inr records, w1)"
      "\<not> not_list records"
      "run_analysis c records w1 = (Inr a, w2)"
      "\<not> not_result a"
      "interpret_results c a w2 = (Inr ms, w3)"
      "\<not> not_list ms"
      "schedule_maintenance_tasks c ms w3 = (Inr sr, w4)"
      "write_maintenance_tasks c sr w4 = (Inr wr, w5)"
      "\<not> dict_get wr ''tasks_created'' 0 > 0"
  | (notify_raises) records w1 a w2 ms w3 sr w4 wr w5 e w6 where
      "query_table c ''downtime_detail'' ''*'' (build_filters ps pe) 1000 w = (Inr records, w1)"
      "\<not> not_list records"
      "run_analysis c records w1 = (Inr a, w2)"
      "\<not> not_result a"
      "interpret_results c a w2 = (Inr ms, w3)"
      "\<not> not_list ms"
      "schedule_maintenance_tasks c ms w3 = (Inr sr, w4)"
      "write_maintenance_tasks c sr w4 = (Inr wr, w5)"
      "dict_get wr ''tasks_created'' 0 > 0"
      "send_notifications c ms w5 = (Inl e, w6)"
  | (notified) records w1 a w2 ms w3 sr w4 wr w5 u w6 where
      "query_table c ''downtime_detail'' ''*'' (build_filters ps pe) 1000 w = (Inr records, w1)"
      "\<not> not_list records"
      "run_analysis c records w1 = (Inr a, w2)"
      "\<not> not_result a"
      "interpret_results c a w2 = (Inr ms, w3)"
      "\<not> not_list ms"
      "schedule_maintenance_tasks c ms w3 = (Inr sr, w4)"
      "write_maintenance_tasks c sr w4 = (Inr wr, w5)"
      "dict_get wr ''tasks_created'' 0 > 0"
      "send_notifications c ms w5 = (Inr u, w6)"
proof -
  obtain rq w1 where q: "query_table c ''downtime_detail'' ''*'' (build_filters ps pe) 1000 w = (rq, w1)"
    by (cases "query_table c ''downtime_detail'' ''*'' (build_filters ps pe) 1000 w")
  show thesis
  proof (cases rq)
    case (Inl e)
    with q show thesis by (rule_tac fetch_raises) simp
  next
    case (Inr records)
    note q = q [unfolded Inr]
    show thesis
    proof (cases "not_list records")
      case True
      with q show thesis by (rule no_records)
    next
      case nr: False
      obtain ra w2 where a: "run_analysis c records w1 = (ra, w2)"
        by (cases "run_analysis c records w1")
      show thesis
      proof (cases ra)
        case (Inl e)
        from q nr a [unfolded Inl] show thesis by (rule analysis_raises)
      next
        case (Inr an)
        note a = a [unfolded Inr]
        show thesis
        proof (cases "not_result an")
          case True
          from q nr a True show thesis by (rule no_analysis)
        next
          case na: False
          obtain ri w3 where i: "interpret_results c an w2 = (ri, w3)"
            by (cases "interpret_results c an w2")
          show thesis
          proof (cases ri)
            case (Inl e)
            from q nr a na i [unfolded Inl] show thesis by (rule interpret_raises)
          next
            case (Inr ms)
            note i = i [unfolded Inr]
            show thesis
            proof (cases "not_list ms")
              case True
              from q nr a na i True show thesis by (rule no_machines)
            next
              case nm: False
              obtain rs w4 where s: "schedule_maintenance_tasks c ms w3 = (rs, w4)"
                by (cases "schedule_maintenance_tasks c ms w3")
              show thesis
              proof (cases rs)
                case (Inl e)
                from q nr a na i nm s [unfolded Inl] show thesis by (rule schedule_raises)
              next
                case (Inr sr)
                note s = s [unfolded Inr]
                obtain rw w5 where wr: "write_maintenance_tasks c sr w4 = (rw, w5)"
                  by (cases "write_maintenance_tasks c sr w4")
                show thesis
                proof (cases rw)
                  case (Inl e)
                  from q nr a na i nm s wr [unfolded Inl] show thesis by (rule write_raises)
                next
                  case (Inr d)
                  note wr = wr [unfolded Inr]
                  show thesis
                  proof (cases "dict_get d ''tasks_created'' 0 > 0")
                    case False
                    from q nr a na i nm s wr False show thesis by (rule no_tasks)
                  next
                    case pos: True
                    obtain rn w6 where n: "send_notifications c ms w5 = (rn, w6)"
                      by (cases "send_notifications c ms w5")
                    show thesis
                    proof (cases rn)
                      case (Inl e)
                      from q nr a na i nm s wr pos n [unfolded Inl] show thesis
                        by (rule notify_raises)
                    next
                      case (Inr u)
                      from q nr a na i nm s wr pos n [unfolded Inr] show thesis
                        by (rule notified)
                    qed
                  qed
                qed
              qed
            qed
          qed
        qed
      qed
    qed
  qed
qed

text \<open>\<^verbatim>\<open>run()\<close> in terms of the outcome of its \<^verbatim>\<open>try\<close> block.\<close>

lemma run_eq:
  assumes "try_block c ps pe
             \<lparr>analysis_success = False, tasks_created = 0, errors = [],
              period_start = isoformat_or_same ps, period_end = isoformat_or_same pe\<rparr> w
           = (exn, s, w', log)"
  shows "run c ps pe w =
    (case exn of
       None \<Rightarrow> Inr s
     | Some (PyException m) \<Rightarrow>
         Inr (s\<lparr>errors := errors s @ [''Error in workflow execution: '' @ m]\<rparr>)
     | Some (PyBaseException m) \<Rightarrow> Inl (PyBaseException m),
     w', log)"
  using assms by (simp add: run_def split: option.splits py_exception.splits)

subsection \<open>The summary carries at most one error\<close>

text \<open>
  Claim C9. Every summary that \<^verbatim>\<open>run()\<close> returns, for every period and every behaviour
  of the collaborators, has at most one element in its list of errors.
\<close>

theorem run_errors_at_most_one:
  assumes "run c ps pe w = (Inr s, w', log)"
  shows "length (errors s) \<le> 1"
proof (cases rule: run_paths [of c ps pe w])
  case fetch_raises
  with assms show ?thesis
    by (auto simp: run_def Let_def try_block_fetch_raises [OF fetch_raises] split: py_exception.splits)
next
  case no_records
  with assms show ?thesis
    by (auto simp: run_def Let_def try_block_no_records [OF no_records])
next
  case analysis_raises
  with assms show ?thesis
    by (auto simp: run_def Let_def try_block_analysis_raises [OF analysis_raises] split: py_exception.splits)
next
  case no_analysis
  with assms show ?thesis
    by (auto simp: run_def Let_def try_block_no_analysis [OF no_analysis])
next
  case interpret_raises
  with assms show ?thesis
    by (auto simp: run_def Let_def try_block_interpret_raises [OF interpret_raises] split: py_exception.splits)
next
  case no_machines
  with assms show ?thesis
    by (auto simp: run_def Let_def try_block_no_machines [OF no_machines])
next
  case schedule_raises
  with assms show ?thesis
    by (auto simp: run_def Let_def try_block_schedule_raises [OF schedule_raises] split: py_exception.splits)
next
  case write_raises
  with assms show ?thesis
    by (auto simp: run_def Let_def try_block_write_raises [OF write_raises] split: py_exception.splits)
next
  case no_tasks
  with assms show ?thesis
    by (auto simp: run_def Let_def try_block_no_tasks [OF no_tasks])
next
  case notify_raises
  with assms show ?thesis
    by (auto simp: run_def Let_def try_block_notify_raises [OF notify_raises] split: py_exception.splits)
next
  case notified
  with assms show ?thesis
    by (auto simp: run_def Let_def try_block_notified [OF notified])
qed

theorem run_errors_at_most_one_witness:
  "run (scripted (Inr (Some [])) (Inr None) (Inr None) (Inr 0) (Inr Map.empty) (Inr ()))
       None None 0
   = (Inr \<lparr>analysis_success = False, tasks_created = 0,
           errors = [''No machine records found in database for the specified period''],
           period_start = None, period_end = None\<rparr>,
      Suc 0, [QueryTable ''downtime_detail'' ''*'' Map.empty 1000 (Inr (Some []))])
   \<and> length (errors \<lparr>analysis_success = False, tasks_created = 0,
           errors = [''No machine records found in database for the specified period''],
           period_start = None, period_end = None\<rparr>) \<le> 1"
proof -
  have r: "run (scripted (Inr (Some [])) (Inr None) (Inr None) (Inr 0) (Inr Map.empty) (Inr ()))
       None None 0
   = (Inr \<lparr>analysis_success = False, tasks_created = 0,
           errors = [''No machine records found in database for the specified period''],
           period_start = None, period_end = None\<rparr>,
      Suc 0, [QueryTable ''downtime_detail'' ''*'' Map.empty 1000 (Inr (Some []))])"
    by (simp add: run_def try_block_def scripted_def build_filters_def)
  from r run_errors_at_most_one [OF r] show ?thesis by simp
qed

subsection \<open>Filter construction\<close>

text \<open>
  Claim C6. The filters follow the four rows of the rule table, a bound being present when
  it is true in Python's sense (\<open>truthy\<close>: a timestamp, or a text that is not empty): with
  neither bound present the map is empty; with only the start present it holds exactly the
  key \<^verbatim>\<open>resolved_at.gte\<close>; with only the end present exactly \<^verbatim>\<open>resolved_at.lte\<close>; with
  both present exactly both keys. The values are the normal forms of the bounds: the
  \<^verbatim>\<open>isoformat()\<close> of a timestamp, a text unchanged.
\<close>

theorem build_filters_rule_table:
  "(\<not> truthy s \<and> \<not> truthy e \<longrightarrow> build_filters s e = Map.empty) \<and>
   (truthy s \<and> \<not> truthy e \<longrightarrow>
      build_filters s e = [''resolved_at.gte'' \<mapsto> isoformat_or_same s] \<and>
      dom (build_filters s e) = {''resolved_at.gte''}) \<and>
   (\<not> truthy s \<and> truthy e \<longrightarrow>
      build_filters s e = [''resolved_at.lte'' \<mapsto> isoformat_or_same e] \<and>
      dom (build_filters s e) = {''resolved_at.lte''}) \<and>
   (truthy s \<and> truthy e \<longrightarrow>
      build_filters s e =
        [''resolved_at.gte'' \<mapsto> isoformat_or_same s, ''resolved_at.lte'' \<mapsto> isoformat_or_same e] \<and>
      dom (build_filters s e) = {''resolved_at.gte'', ''resolved_at.lte''}) \<and>
   (\<forall>d. isoformat_or_same (Some (Timestamp d)) = Some (isoformat d)) \<and>
   (\<forall>t. isoformat_or_same (Some (Text t)) = Some t)"
  by (auto simp: build_filters_def)

theorem build_filters_rule_table_witness:
  "build_filters None None = Map.empty \<and>
   build_filters (Some (Timestamp (midnight 2024 1 1))) None
     = [''resolved_at.gte'' \<mapsto> Some ''2024-01-01T00:00:00''] \<and>
   build_filters (Some (Text [])) (Some (Text ''2024-01-31''))
     = [''resolved_at.lte'' \<mapsto> Some ''2024-01-31''] \<and>
   build_filters (Some (Timestamp (midnight 2024 1 1))) (Some (Text ''2024-01-31''))
     = [''resolved_at.gte'' \<mapsto> Some ''2024-01-01T00:00:00'',
        ''resolved_at.lte'' \<mapsto> Some ''2024-01-31'']"
  using build_filters_rule_table [of None None]
    build_filters_rule_table [of "Some (Timestamp (midnight 2024 1 1))" None]
    build_filters_rule_table [of "Some (Text [])" "Some (Text ''2024-01-31'')"]
    build_filters_rule_table [of "Some (Timestamp (midnight 2024 1 1))" "Some (Text ''2024-01-31'')"]
  by (simp add: isoformat_start del: One_nat_def)

subsection \<open>The early exits\<close>

text \<open>
  Claim C2. For every period, if the query of table \<^verbatim>\<open>downtime_detail\<close> returns the
  empty list or \<^verbatim>\<open>None\<close>, \<^verbatim>\<open>run()\<close> returns at once (the query is the only call made)
  a summary with \<^verbatim>\<open>analysis_success\<close> false, \<^verbatim>\<open>tasks_created\<close> zero and exactly one
  error, the text \<^verbatim>\<open>No machine records found in database for the specified period\<close>.
\<close>

theorem run_no_records:
  assumes "query_table c ''downtime_detail'' ''*'' (build_filters ps pe) 1000 w = (Inr records, w1)"
    and "not_list records"
  shows "run c ps pe w =
    (Inr \<lparr>analysis_success = False, tasks_created = 0,
          errors = [''No machine records found in database for the specified period''],
          period_start = isoformat_or_same ps, period_end = isoformat_or_same pe\<rparr>,
     w1, [QueryTable ''downtime_detail'' ''*'' (build_filters ps pe) 1000 (Inr records)])"
  by (simp add: run_eq [OF try_block_no_records [OF assms]])

theorem run_no_records_witness:
  "run (scripted (Inr None) (Inr (Some 7)) (Inr (Some [1])) (Inr 0)
          (Inr [''tasks_created'' \<mapsto> 1]) (Inr ()))
     (Some (Text ''2024-01-01'')) None 0 =
    (Inr \<lparr>analysis_success = False, tasks_created = 0,
          errors = [''No machine records found in database for the specified period''],
          period_start = Some ''2024-01-01'', period_end = None\<rparr>,
     Suc 0, [QueryTable ''downtime_detail'' ''*''
           [''resolved_at.gte'' \<mapsto> Some ''2024-01-01''] 1000 (Inr None)])"
proof -
  let ?c = "scripted (Inr None) (Inr (Some 7)) (Inr (Some [1])) (Inr 0)
          (Inr [''tasks_created'' \<mapsto> 1]) (Inr ())"
  have q: "query_table ?c ''downtime_detail'' ''*''
             (build_filters (Some (Text ''2024-01-01'')) None) 1000 0 = (Inr None, Suc 0)"
    by (simp add: scripted_def)
  have n: "not_list (None :: nat list option)" by simp
  show ?thesis
    using run_no_records [OF q n]
    by (simp add: build_filters_def)
qed

text \<open>
  Claim C3. When the query returns a non-empty list of records and the analysis returns:
  if its result is empty or absent, \<^verbatim>\<open>run()\<close> returns after these two calls a summary
  with \<^verbatim>\<open>analysis_success\<close> false and exactly one error, the text
  \<^verbatim>\<open>No results from machine clustering analysis\<close>; otherwise the interpreter is called
  with the result, and every summary the run returns (also one returned because the
  interpreter or a later call raised) has \<^verbatim>\<open>analysis_success\<close> true.
\<close>

theorem run_analysis_gate:
  assumes "query_table c ''downtime_detail'' ''*'' (build_filters ps pe) 1000 w = (Inr records, w1)"
    and "\<not> not_list records"
    and "run_analysis c records w1 = (Inr a, w2)"
    and "run c ps pe w = (res, w', log)"
  shows "if not_result a then
           res = Inr \<lparr>analysis_success = False, tasks_created = 0,
                      errors = [''No results from machine clustering analysis''],
                      period_start = isoformat_or_same ps, period_end = isoformat_or_same pe\<rparr>
           \<and> w' = w2
           \<and> log = [QueryTable ''downtime_detail'' ''*'' (build_filters ps pe) 1000 (Inr records),
                    RunAnalysis records (Inr a)]
         else
           (\<exists>r. InterpretResults a r \<in> set log) \<and> (\<forall>s. res = Inr s \<longrightarrow> analysis_success s)"
proof (cases "not_result a")
  case True
  from assms(4) show ?thesis
    by (simp add: True run_eq [OF try_block_no_analysis [OF assms(1,2,3) True]])
next
  case False
  show ?thesis
  proof (cases rule: run_paths [of c ps pe w])
    case fetch_raises with assms show ?thesis by simp
  next
    case no_records with assms show ?thesis by simp
  next
    case analysis_raises with assms show ?thesis by simp
  next
    case no_analysis with assms False show ?thesis by simp
  next
    case interpret_raises
    with assms False show ?thesis
      by (auto simp: run_eq [OF try_block_interpret_raises [OF interpret_raises]]
          split: py_exception.splits)
  next
    case no_machines
    with assms False show ?thesis
      by (auto simp: run_eq [OF try_block_no_machines [OF no_machines]])
  next
    case schedule_raises
    with assms False show ?thesis
      by (auto simp: run_eq [OF try_block_schedule_raises [OF schedule_raises]]
          split: py_exception.splits)
  next
    case write_raises
    with assms False show ?thesis
      by (auto simp: run_eq [OF try_block_write_raises [OF write_raises]]
          split: py_exception.splits)
  next
    case no_tasks
    with assms False show ?thesis
      by (auto simp: run_eq [OF try_block_no_tasks [OF no_tasks]])
  next
    case notify_raises
    with assms False show ?thesis
      by (auto simp: run_eq [OF try_block_notify_raises [OF notify_raises]]
          split: py_exception.splits)
  next
    case notified
    with assms False show ?thesis
      by (auto simp: run_eq [OF try_block_notified [OF notified]])
  qed
qed

theorem run_analysis_gate_witness:
  "run (scripted (Inr (Some [5])) (Inr None) (Inr (Some [1])) (Inr 0)
          (Inr [''tasks_created'' \<mapsto> 1]) (Inr ())) None None 0 =
    (Inr \<lparr>analysis_success = False, tasks_created = 0,
          errors = [''No results from machine clustering analysis''],
          period_start = None, period_end = None\<rparr>,
     Suc (Suc 0),
     [QueryTable ''downtime_detail'' ''*'' Map.empty 1000 (Inr (Some [5])),
      RunAnalysis (Some [5]) (Inr None)])
   \<and> run (scripted (Inr (Some [5])) (Inr (Some 7)) (Inl (PyException ''boom'')) (Inr 0)
          (Inr [''tasks_created'' \<mapsto> 1]) (Inr ())) None None 0 =
    (Inr \<lparr>analysis_success = True, tasks_created = 0,
          errors = [''Error in workflow execution: boom''],
          period_start = None, period_end = None\<rparr>,
     Suc (Suc (Suc 0)),
     [QueryTable ''downtime_detail'' ''*'' Map.empty 1000 (Inr (Some [5])),
      RunAnalysis (Some [5]) (Inr (Some 7)),
      InterpretResults (Some 7) (Inl (PyException ''boom''))])"
proof -
  let ?c1 = "scripted (Inr (Some [5])) (Inr None) (Inr (Some [1])) (Inr 0)
          (Inr [''tasks_created'' \<mapsto> 1]) (Inr ())"
  let ?c2 = "scripted (Inr (Some [5])) (Inr (Some 7)) (Inl (PyException ''boom'')) (Inr 0)
          (Inr [''tasks_created'' \<mapsto> 1]) (Inr ())"
  have nr: "\<not> not_list (Some [5::nat])" by simp
  have q1: "query_table ?c1 ''downtime_detail'' ''*'' (build_filters None None) 1000 0
              = (Inr (Some [5]), Suc 0)"
    by (simp add: scripted_def)
  have a1: "run_analysis ?c1 (Some [5]) (Suc 0) = (Inr None, Suc (Suc 0))"
    by (simp add: scripted_def)
  have q2: "query_table ?c2 ''downtime_detail'' ''*'' (build_filters None None) 1000 0
              = (Inr (Some [5]), Suc 0)"
    by (simp add: scripted_def)
  have a2: "run_analysis ?c2 (Some [5]) (Suc 0) = (Inr (Some 7), Suc (Suc 0))"
    by (simp add: scripted_def)
  have r2: "run ?c2 None None 0 =
    (Inr \<lparr>analysis_success = True, tasks_created = 0,
          errors = [''Error in workflow execution: boom''],
          period_start = None, period_end = None\<rparr>,
     Suc (Suc (Suc 0)),
     [QueryTable ''downtime_detail'' ''*'' Map.empty 1000 (Inr (Some [5])),
      RunAnalysis (Some [5]) (Inr (Some 7)),
      InterpretResults (Some 7) (Inl (PyException ''boom''))])"
    by (simp add: run_def try_block_def scripted_def build_filters_def)
  have r1: "run ?c1 None None 0 =
    (Inr \<lparr>analysis_success = False, tasks_created = 0,
          errors = [''No results from machine clustering analysis''],
          period_start = None, period_end = None\<rparr>,
     Suc (Suc 0),
     [QueryTable ''downtime_detail'' ''*'' Map.empty 1000 (Inr (Some [5])),
      RunAnalysis (Some [5]) (Inr None)])"
    by (simp add: run_def try_block_def scripted_def build_filters_def)
  show ?thesis
    using run_analysis_gate [OF q1 nr a1 r1] run_analysis_gate [OF q2 nr a2 r2] r1 r2
    by simp
qed

text \<open>
  Claim C4. When the analysis returns a non-empty result and the interpreter returns the
  empty list or \<^verbatim>\<open>None\<close>, \<^verbatim>\<open>run()\<close> returns after these three calls a summary with
  \<^verbatim>\<open>analysis_success\<close> true, \<^verbatim>\<open>tasks_created\<close> zero and no error.
\<close>

theorem run_no_machines:
  assumes "query_table c ''downtime_detail'' ''*'' (build_filters ps pe) 1000 w = (Inr records, w1)"
    and "\<not> not_list records"
    and "run_analysis c records w1 = (Inr a, w2)"
    and "\<not> not_result a"
    and "interpret_results c a w2 = (Inr ms, w3)"
    and "not_list ms"
  shows "run c ps pe w =
    (Inr \<lparr>analysis_success = True, tasks_created = 0, errors = [],
          period_start = isoformat_or_same ps, period_end = isoformat_or_same pe\<rparr>,
     w3,
     [QueryTable ''downtime_detail'' ''*'' (build_filters ps pe) 1000 (Inr records),
      RunAnalysis records (Inr a), InterpretResults a (Inr ms)])"
  by (simp add: run_eq [OF try_block_no_machines [OF assms]])

theorem run_no_machines_witness:
  "run (scripted (Inr (Some [5])) (Inr (Some 7)) (Inr (Some [])) (Inr 0)
          (Inr [''tasks_created'' \<mapsto> 1]) (Inr ())) None (Some (Text ''2024-01-31'')) 0 =
    (Inr \<lparr>analysis_success = True, tasks_created = 0, errors = [],
          period_start = None, period_end = Some ''2024-01-31''\<rparr>,
     Suc (Suc (Suc 0)),
     [QueryTable ''downtime_detail'' ''*'' [''resolved_at.lte'' \<mapsto> Some ''2024-01-31'']
        1000 (Inr (Some [5])),
      RunAnalysis (Some [5]) (Inr (Some 7)),
      InterpretResults (Some 7) (Inr (Some []))])"
proof -
  let ?c = "scripted (Inr (Some [5])) (Inr (Some 7)) (Inr (Some [])) (Inr 0)
          (Inr [''tasks_created'' \<mapsto> 1]) (Inr ())"
  let ?pe = "Some (Text ''2024-01-31'')"
  have q: "query_table ?c ''downtime_detail'' ''*'' (build_filters None ?pe) 1000 0
              = (Inr (Some [5]), Suc 0)"
    by (simp add: scripted_def)
  have nr: "\<not> not_list (Some [5::nat])" by simp
  have a: "run_analysis ?c (Some [5]) (Suc 0) = (Inr (Some 7), Suc (Suc 0))"
    by (simp add: scripted_def)
  have na: "\<not> not_result (Some (7::nat))" by simp
  have i: "interpret_results ?c (Some 7) (Suc (Suc 0)) = (Inr (Some []), Suc (Suc (Suc 0)))"
    by (simp add: scripted_def)
  have nm: "not_list (Some ([]::nat list))" by simp
  show ?thesis
    using run_no_machines [OF q nr a na i nm] by (simp add: build_filters_def)
qed

text \<open>
  Claim C10. In a run that ends at one of the three gates (the query, the analysis or the
  interpreter returned an empty or absent result), none of
  \<^verbatim>\<open>schedule_maintenance_tasks\<close>, \<^verbatim>\<open>write_maintenance_tasks\<close> and
  \<^verbatim>\<open>send_notifications\<close> is called.
\<close>

theorem run_early_exit_no_side_effect:
  assumes "run c ps pe w = (res, w', log)"
    and "(\<exists>t cols f l records. QueryTable t cols f l (Inr records) \<in> set log \<and> not_list records)
       \<or> (\<exists>records a. RunAnalysis records (Inr a) \<in> set log \<and> not_result a)
       \<or> (\<exists>a ms. InterpretResults a (Inr ms) \<in> set log \<and> not_list ms)"
  shows "filter is_ScheduleMaintenanceTasks log = [] \<and>
         filter is_WriteMaintenanceTasks log = [] \<and>
         filter is_SendNotifications log = []"
proof (cases rule: run_paths [of c ps pe w])
  case fetch_raises
  with assms show ?thesis
    by (auto simp: run_eq [OF try_block_fetch_raises [OF fetch_raises]])
next
  case no_records
  with assms show ?thesis
    by (auto simp: run_eq [OF try_block_no_records [OF no_records]])
next
  case analysis_raises
  with assms show ?thesis
    by (auto simp: run_eq [OF try_block_analysis_raises [OF analysis_raises]])
next
  case no_analysis
  with assms show ?thesis
    by (auto simp: run_eq [OF try_block_no_analysis [OF no_analysis]])
next
  case interpret_raises
  with assms show ?thesis
    by (auto simp: run_eq [OF try_block_interpret_raises [OF interpret_raises]])
next
  case no_machines
  with assms show ?thesis
    by (auto simp: run_eq [OF try_block_no_machines [OF no_machines]])
next
  case schedule_raises
  with assms show ?thesis
    by (auto simp: run_eq [OF try_block_schedule_raises [OF schedule_raises]])
next
  case write_raises
  with assms show ?thesis
    by (auto simp: run_eq [OF try_block_write_raises [OF write_raises]])
next
  case no_tasks
  with assms show ?thesis
    by (auto simp: run_eq [OF try_block_no_tasks [OF no_tasks]])
next
  case notify_raises
  with assms show ?thesis
    by (auto simp: run_eq [OF try_block_notify_raises [OF notify_raises]])
next
  case notified
  with assms show ?thesis
    by (auto simp: run_eq [OF try_block_notified [OF notified]])
qed

theorem run_early_exit_no_side_effect_witness:
  "run (scripted (Inr (Some [5])) (Inr (Some 7)) (Inr None) (Inr 0)
          (Inr [''tasks_created'' \<mapsto> 1]) (Inr ())) None None 0 =
    (Inr \<lparr>analysis_success = True, tasks_created = 0, errors = [],
          period_start = None, period_end = None\<rparr>,
     Suc (Suc (Suc 0)),
     [QueryTable ''downtime_detail'' ''*'' Map.empty 1000 (Inr (Some [5])),
      RunAnalysis (Some [5]) (Inr (Some 7)),
      InterpretResults (Some 7) (Inr None)])
   \<and> filter is_ScheduleMaintenanceTasks
        [QueryTable ''downtime_detail'' ''*'' Map.empty 1000 (Inr (Some [5::nat])),
         RunAnalysis (Some [5]) (Inr (Some (7::nat))),
         InterpretResults (Some 7) (Inr (None :: nat list option)) :: (nat, nat, nat, nat) event] = []
   \<and> filter is_WriteMaintenanceTasks
        [QueryTable ''downtime_detail'' ''*'' Map.empty 1000 (Inr (Some [5::nat])),
         RunAnalysis (Some [5]) (Inr (Some (7::nat))),
         InterpretResults (Some 7) (Inr (None :: nat list option)) :: (nat, nat, nat, nat) event] = []
   \<and> filter is_SendNotifications
        [QueryTable ''downtime_detail'' ''*'' Map.empty 1000 (Inr (Some [5::nat])),
         RunAnalysis (Some [5]) (Inr (Some (7::nat))),
         InterpretResults (Some 7) (Inr (None :: nat list option)) :: (nat, nat, nat, nat) event] = []"
proof -
  let ?c = "scripted (Inr (Some [5])) (Inr (Some 7)) (Inr None) (Inr 0)
          (Inr [''tasks_created'' \<mapsto> 1]) (Inr ())"
  let ?log = "[QueryTable ''downtime_detail'' ''*'' Map.empty 1000 (Inr (Some [5::nat])),
      RunAnalysis (Some [5]) (Inr (Some (7::nat))),
      InterpretResults (Some 7) (Inr (None :: nat list option))] :: (nat, nat, nat, nat) event list"
  have r: "run ?c None None 0 =
    (Inr \<lparr>analysis_success = True, tasks_created = 0, errors = [],
          period_start = None, period_end = None\<rparr>, Suc (Suc (Suc 0)), ?log)"
    by (simp add: run_def try_block_def scripted_def build_filters_def)
  have g: "(\<exists>t cols f l records. QueryTable t cols f l (Inr records) \<in> set ?log \<and> not_list records)
       \<or> (\<exists>records a. RunAnalysis records (Inr a) \<in> set ?log \<and> not_result a)
       \<or> (\<exists>a ms. InterpretResults a (Inr ms) \<in> set ?log \<and> not_list ms)"
    by simp
  show ?thesis
    using run_early_exit_no_side_effect [OF r g] r by simp
qed

subsection \<open>Tasks and notification\<close>



subsection \<open>Exceptions\<close>




subsection \<open>The end-to-end scenario\<close>

text \<open>
  Claim C7. For the period 2024-01-01 to 2024-01-31 given on the command line, when the
  query returns 50 records, the analysis a non-empty result, the interpreter 4 machines,
  the writer reports \<^verbatim>\<open>tasks_created = 4\<close> and the notifier returns, the summary is
  \<^verbatim>\<open>{analysis_success: true, tasks_created: 4, errors: [], period_start:
  "2024-01-01T00:00:00", period_end: "2024-01-31T23:59:59.999999"}\<close>: the end of the period
  is the last instant of its day, both bounds are echoed as text, and the notifier is
  called once with the 4 machines.
\<close>

theorem end_to_end_scenario:
  assumes "query_table c ''downtime_detail'' ''*''
             [''resolved_at.gte'' \<mapsto> Some ''2024-01-01T00:00:00'',
              ''resolved_at.lte'' \<mapsto> Some ''2024-01-31T23:59:59.999999''] 1000 w
           = (Inr (Some records), w1)"
    and "length records = 50"
    and "run_analysis c (Some records) w1 = (Inr (Some a), w2)"
    and "interpret_results c (Some a) w2 = (Inr (Some ms), w3)"
    and "length ms = 4"
    and "schedule_maintenance_tasks c (Some ms) w3 = (Inr sr, w4)"
    and "write_maintenance_tasks c sr w4 = (Inr wr, w5)"
    and "wr ''tasks_created'' = Some 4"
    and "send_notifications c (Some ms) w5 = (Inr (), w6)"
  shows "main_run c (midnight 2024 1 1) (midnight 2024 1 31) w =
    (Inr \<lparr>analysis_success = True, tasks_created = 4, errors = [],
          period_start = Some ''2024-01-01T00:00:00'',
          period_end = Some ''2024-01-31T23:59:59.999999''\<rparr>,
     w6,
     [QueryTable ''downtime_detail'' ''*''
        [''resolved_at.gte'' \<mapsto> Some ''2024-01-01T00:00:00'',
         ''resolved_at.lte'' \<mapsto> Some ''2024-01-31T23:59:59.999999''] 1000 (Inr (Some records)),
      RunAnalysis (Some records) (Inr (Some a)),
      InterpretResults (Some a) (Inr (Some ms)),
      ScheduleMaintenanceTasks (Some ms) (Inr sr),
      WriteMaintenanceTasks sr (Inr wr),
      SendNotifications (Some ms) (Inr ())])"
proof -
  define ps where "ps = Some (Timestamp (midnight 2024 1 1))"
  define pe where "pe = Some (Timestamp (replace_end_of_day (midnight 2024 1 31)))"
  have iso: "isoformat_or_same ps = Some ''2024-01-01T00:00:00''"
    "isoformat_or_same pe = Some ''2024-01-31T23:59:59.999999''"
    by (simp_all add: ps_def pe_def isoformat_start isoformat_end del: One_nat_def)
  have f: "build_filters ps pe =
             [''resolved_at.gte'' \<mapsto> Some ''2024-01-01T00:00:00'',
              ''resolved_at.lte'' \<mapsto> Some ''2024-01-31T23:59:59.999999'']"
    by (simp add: build_filters_def iso) (simp add: ps_def pe_def)
  have q: "query_table c ''downtime_detail'' ''*'' (build_filters ps pe) 1000 w
           = (Inr (Some records), w1)"
    using assms(1) by (simp only: f)
  have nr: "\<not> not_list (Some records)" using assms(2) by (simp add: not_list_length)
  have na: "\<not> not_result (Some a)" by simp
  have nm: "\<not> not_list (Some ms)" using assms(5) by (simp add: not_list_length)
  have n: "dict_get wr ''tasks_created'' 0 > 0" "dict_get wr ''tasks_created'' 0 = 4"
    using assms(8) by (simp_all add: dict_get_def)
  have "run c ps pe w =
    (Inr \<lparr>analysis_success = True, tasks_created = 4, errors = [],
          period_start = Some ''2024-01-01T00:00:00'',
          period_end = Some ''2024-01-31T23:59:59.999999''\<rparr>,
     w6,
     [QueryTable ''downtime_detail'' ''*''
        [''resolved_at.gte'' \<mapsto> Some ''2024-01-01T00:00:00'',
         ''resolved_at.lte'' \<mapsto> Some ''2024-01-31T23:59:59.999999''] 1000 (Inr (Some records)),
      RunAnalysis (Some records) (Inr (Some a)),
      InterpretResults (Some a) (Inr (Some ms)),
      ScheduleMaintenanceTasks (Some ms) (Inr sr),
      WriteMaintenanceTasks sr (Inr wr),
      SendNotifications (Some ms) (Inr ())])"
    by (simp add: run_eq [OF try_block_notified
          [OF q nr assms(3) na assms(4) nm assms(6) assms(7) n(1) assms(9)]] n(2) iso f)
  then show ?thesis
    unfolding main_run_def Let_def ps_def pe_def .
qed

theorem end_to_end_scenario_witness:
  "main_run (scripted (Inr (Some (replicate 50 0))) (Inr (Some 7)) (Inr (Some [1, 2, 3, 4]))
               (Inr 9) (Inr [''tasks_created'' \<mapsto> 4]) (Inr ()))
     (midnight 2024 1 1) (midnight 2024 1 31) 0 =
    (Inr \<lparr>analysis_success = True, tasks_created = 4, errors = [],
          period_start = Some ''2024-01-01T00:00:00'',
          period_end = Some ''2024-01-31T23:59:59.999999''\<rparr>,
     Suc (Suc (Suc (Suc (Suc (Suc 0))))),
     [QueryTable ''downtime_detail'' ''*''
        [''resolved_at.gte'' \<mapsto> Some ''2024-01-01T00:00:00'',
         ''resolved_at.lte'' \<mapsto> Some ''2024-01-31T23:59:59.999999''] 1000
        (Inr (Some (replicate 50 0))),
      RunAnalysis (Some (replicate 50 0)) (Inr (Some 7)),
      InterpretResults (Some 7) (Inr (Some [1, 2, 3, 4])),
      ScheduleMaintenanceTasks (Some [1, 2, 3, 4]) (Inr 9),
      WriteMaintenanceTasks 9 (Inr [''tasks_created'' \<mapsto> 4]),
      SendNotifications (Some [1, 2, 3, 4]) (Inr ())])"
proof -
  let ?c = "scripted (Inr (Some (replicate 50 0))) (Inr (Some 7)) (Inr (Some [1, 2, 3, 4]))
               (Inr 9) (Inr [''tasks_created'' \<mapsto> 4]) (Inr ())"
  have q: "query_table ?c ''downtime_detail'' ''*''
             [''resolved_at.gte'' \<mapsto> Some ''2024-01-01T00:00:00'',
              ''resolved_at.lte'' \<mapsto> Some ''2024-01-31T23:59:59.999999''] 1000 0
           = (Inr (Some (replicate 50 0)), Suc 0)"
    by (simp add: scripted_def)
  have l: "length (replicate 50 (0::nat)) = 50" by simp
  have a: "run_analysis ?c (Some (replicate 50 0)) (Suc 0) = (Inr (Some 7), Suc (Suc 0))"
    by (simp add: scripted_def)
  have i: "interpret_results ?c (Some 7) (Suc (Suc 0))
             = (Inr (Some [1, 2, 3, 4]), Suc (Suc (Suc 0)))"
    by (simp add: scripted_def)
  have lm: "length [1::nat, 2, 3, 4] = 4" by simp
  have s: "schedule_maintenance_tasks ?c (Some [1, 2, 3, 4]) (Suc (Suc (Suc 0)))
             = (Inr 9, Suc (Suc (Suc (Suc 0))))"
    by (simp add: scripted_def)
  have w: "write_maintenance_tasks ?c 9 (Suc (Suc (Suc (Suc 0))))
             = (Inr [''tasks_created'' \<mapsto> 4], Suc (Suc (Suc (Suc (Suc 0)))))"
    by (simp add: scripted_def)
  have t: "[''tasks_created'' \<mapsto> (4::int)] ''tasks_created'' = Some 4" by simp
  have n: "send_notifications ?c (Some [1, 2, 3, 4]) (Suc (Suc (Suc (Suc (Suc 0)))))
             = (Inr (), Suc (Suc (Suc (Suc (Suc (Suc 0))))))"
    by (simp add: scripted_def)
  show ?thesis
    by (rule end_to_end_scenario [OF q l a i lm s w t n])
qed

subsection \<open>Construction\<close>

text \<open>
  Claim C8. Construction with a missing or empty \<^verbatim>\<open>SUPABASE_URL\<close> or \<^verbatim>\<open>SUPABASE_KEY\<close>
  raises the configuration error before any collaborator is constructed; an exception
  raised by the constructor of a collaborator leaves \<^verbatim>\<open>__init__\<close>; and when an object
  is returned, both settings were non-empty and the client, the scheduler, the writer and
  the notifier were all constructed, in this order, the scheduler and the writer on that
  client.
\<close>

theorem init_all_or_nothing:
  assumes "init url key new p = (res, p', log)"
  shows "(not_str url \<or> not_str key \<longrightarrow>
            res = Inl (PyException ''SUPABASE_URL and SUPABASE_KEY must be set in settings'')
            \<and> p' = p \<and> log = []) \<and>
         (\<forall>ev e. ev \<in> set log \<and> failed ev = Some e \<longrightarrow> res = Inl e) \<and>
         (\<forall>self. res = Inr self \<longrightarrow>
            \<not> not_str url \<and> \<not> not_str key \<and>
            log = [NewSupabaseClient (Inr (db self)),
                   NewMaintenanceTaskScheduler (db self) (Inr (scheduler self)),
                   NewMaintenanceTaskWriter (db self) (Inr (writer self)),
                   NewMaintenanceNotifier (Inr (notifier self))])"
  using assms
  by (auto simp: init_def Let_def split: if_splits sum.splits prod.splits)


theorem init_all_or_nothing_witness:
  "init None (Some ''key'') (scripted_constructors (Inr 1) (Inr 2) (Inr 3) (Inr 4))
     \<lparr>environ = Map.empty, world = 0\<rparr>
   = (Inl (PyException ''SUPABASE_URL and SUPABASE_KEY must be set in settings''),
      \<lparr>environ = Map.empty, world = 0\<rparr>, [])
   \<and> init (Some ''url'') (Some ''key'')
       (scripted_constructors (Inr 1) (Inl (PyException ''no scheduler'')) (Inr 3) (Inr 4))
       \<lparr>environ = Map.empty, world = 0\<rparr>
   = (Inl (PyException ''no scheduler''),
      \<lparr>environ = [''SUPABASE_URL'' \<mapsto> ''url'', ''SUPABASE_KEY'' \<mapsto> ''key''],
       world = Suc (Suc 0)\<rparr>,
      [NewSupabaseClient (Inr 1),
       NewMaintenanceTaskScheduler 1 (Inl (PyException ''no scheduler''))])
   \<and> init (Some ''url'') (Some ''key'') (scripted_constructors (Inr 1) (Inr 2) (Inr 3) (Inr 4))
       \<lparr>environ = Map.empty, world = 0\<rparr>
   = (Inr \<lparr>db = 1, scheduler = 2, writer = 3, notifier = 4\<rparr>,
      \<lparr>environ = [''SUPABASE_URL'' \<mapsto> ''url'', ''SUPABASE_KEY'' \<mapsto> ''key''],
       world = Suc (Suc (Suc (Suc 0)))\<rparr>,
      [NewSupabaseClient (Inr 1), NewMaintenanceTaskScheduler 1 (Inr 2),
       NewMaintenanceTaskWriter 1 (Inr 3), NewMaintenanceNotifier (Inr 4)])"
proof -
  let ?p = "\<lparr>environ = Map.empty, world = 0::nat\<rparr>"
  let ?ok = "scripted_constructors (Inr 1) (Inr 2) (Inr 3) (Inr 4)"
  let ?bad = "scripted_constructors (Inr 1) (Inl (PyException ''no scheduler'')) (Inr 3) (Inr 4)"
  have r1: "init None (Some ''key'') ?ok ?p
   = (Inl (PyException ''SUPABASE_URL and SUPABASE_KEY must be set in settings''), ?p, [])"
    by (simp add: init_def)
  have r2: "init (Some ''url'') (Some ''key'') ?bad ?p
   = (Inl (PyException ''no scheduler''),
      \<lparr>environ = [''SUPABASE_URL'' \<mapsto> ''url'', ''SUPABASE_KEY'' \<mapsto> ''key''],
       world = Suc (Suc 0)\<rparr>,
      [NewSupabaseClient (Inr 1),
       NewMaintenanceTaskScheduler 1 (Inl (PyException ''no scheduler''))])"
    by (simp add: init_def environ_setitem_def scripted_constructors_def)
  have r3: "init (Some ''url'') (Some ''key'') ?ok ?p
   = (Inr \<lparr>db = 1, scheduler = 2, writer = 3, notifier = 4\<rparr>,
      \<lparr>environ = [''SUPABASE_URL'' \<mapsto> ''url'', ''SUPABASE_KEY'' \<mapsto> ''key''],
       world = Suc (Suc (Suc (Suc 0)))\<rparr>,
      [NewSupabaseClient (Inr 1), NewMaintenanceTaskScheduler 1 (Inr 2),
       NewMaintenanceTaskWriter 1 (Inr 3), NewMaintenanceNotifier (Inr 4)])"
    by (simp add: init_def environ_setitem_def scripted_constructors_def)
  show ?thesis
    using init_all_or_nothing [OF r1] init_all_or_nothing [OF r2] init_all_or_nothing [OF r3]
      r1 r2 r3
    by simp
qed

end
